theory Spec2Isabelle
  imports Complex_Main
begin

section \<open>JavaScript values\<close>

text \<open>
  The research route and the \<open>useResearch\<close> hook work on untyped data: the text of the
  provider is parsed with \<open>JSON.parse\<close> and read with property accesses and \<open>||\<close>
  defaults. The values are modelled as they are at run time. A number is a rational
  (the code only tests numbers for zero and counts with them); a string is a list of
  code units.
\<close>

datatype jsval =
    Undefined
  | Null
  | JBool bool
  | JNum rat
  | JStr string
  | JArr "jsval list"
  | JObj "(string \<times> jsval) list"

text \<open>
  Thrown values, all of them instances of \<open>Error\<close>. \<open>ClientError\<close> is the error that
  the provider's client library throws when \<open>getGenerativeModel\<close> is given no model name.
\<close>

datatype js_error = TypeError | SyntaxError | ClientError | Error string

text \<open>
  Built-ins of the JavaScript engine that the repository calls and does not define:
  \<open>JSON.parse\<close> (\<open>None\<close> when it throws a SyntaxError), the conversion of a value
  that is not a string to a string, and the message text of an error that the engine or
  the client library throws.
\<close>

record js_runtime =
  JSON_parse :: "string \<Rightarrow> jsval option"
  ToString :: "jsval \<Rightarrow> string"
  engine_message :: "js_error \<Rightarrow> string"

fun truthy :: "jsval \<Rightarrow> bool" where
  "truthy Undefined = False"
| "truthy Null = False"
| "truthy (JBool b) = b"
| "truthy (JNum n) = (n \<noteq> 0)"
| "truthy (JStr s) = (s \<noteq> [])"
| "truthy (JArr xs) = True"
| "truthy (JObj kvs) = True"

text \<open>\<open>a || b\<close>\<close>

definition or_else :: "jsval \<Rightarrow> jsval \<Rightarrow> jsval" where
  "or_else a b = (if truthy a then a else b)"

fun nullish :: "jsval \<Rightarrow> bool" where
  "nullish Undefined = True"
| "nullish Null = True"
| "nullish v = False"

text \<open>
  \<open>v.k\<close> for the property names the code reads (none of them is inherited from a
  prototype, apart from \<open>length\<close>). On \<open>null\<close> and \<open>undefined\<close> the access throws a
  TypeError, which the callers test with \<open>nullish\<close>; \<open>property\<close> is the access once that
  is excluded, and also \<open>v?.k\<close>.
\<close>

fun property :: "jsval \<Rightarrow> string \<Rightarrow> jsval" where
  "property (JObj kvs) k = (case map_of kvs k of Some v \<Rightarrow> v | None \<Rightarrow> Undefined)"
| "property (JArr xs) k = (if k = ''length'' then JNum (of_nat (length xs)) else Undefined)"
| "property (JStr s) k = (if k = ''length'' then JNum (of_nat (length s)) else Undefined)"
| "property v k = Undefined"

fun is_string :: "jsval \<Rightarrow> bool" where
  "is_string (JStr s) = True"
| "is_string v = False"

definition to_string :: "js_runtime \<Rightarrow> jsval \<Rightarrow> string" where
  "to_string rt v = (case v of JStr s \<Rightarrow> s | _ \<Rightarrow> ToString rt v)"

definition error_message :: "js_runtime \<Rightarrow> js_error \<Rightarrow> string" where
  "error_message rt e = (case e of Error m \<Rightarrow> m | _ \<Rightarrow> engine_message rt e)"

definition bnd :: "js_error + 'a \<Rightarrow> ('a \<Rightarrow> js_error + 'b) \<Rightarrow> js_error + 'b" where
  "bnd m f = (case m of Inl e \<Rightarrow> Inl e | Inr x \<Rightarrow> f x)"

text \<open>\<open>xs.map((x, index) => ...)\<close>: the first callback that throws ends the loop.\<close>

fun map_index :: "(jsval \<Rightarrow> nat \<Rightarrow> js_error + 'b) \<Rightarrow> nat \<Rightarrow> jsval list \<Rightarrow> js_error + 'b list" where
  "map_index f i [] = Inr []"
| "map_index f i (x # xs) =
     bnd (f x i) (\<lambda>y. bnd (map_index f (Suc i) xs) (\<lambda>ys. Inr (y # ys)))"

text \<open>A parsed JSON value that is not an array has no callable \<open>map\<close>.\<close>

definition js_map :: "jsval \<Rightarrow> (jsval \<Rightarrow> nat \<Rightarrow> js_error + 'b) \<Rightarrow> js_error + 'b list" where
  "js_map v f = (case v of JArr xs \<Rightarrow> map_index f 0 xs | _ \<Rightarrow> Inl TypeError)"

definition digit :: "nat \<Rightarrow> char" where
  "digit d =
     (if d = 0 then CHR ''0'' else if d = 1 then CHR ''1'' else if d = 2 then CHR ''2''
      else if d = 3 then CHR ''3'' else if d = 4 then CHR ''4'' else if d = 5 then CHR ''5''
      else if d = 6 then CHR ''6'' else if d = 7 then CHR ''7'' else if d = 8 then CHR ''8''
      else CHR ''9'')"

text \<open>The decimal text of an index or a status in a template literal.\<close>

fun string_of_nat :: "nat \<Rightarrow> string" where
  "string_of_nat n =
     (if n < 10 then [digit n] else string_of_nat (n div 10) @ [digit (n mod 10)])"

declare string_of_nat.simps [simp del]

section \<open>Strings: \<open>trim\<close>, \<open>startsWith\<close>, \<open>endsWith\<close>, \<open>slice\<close>\<close>

text \<open>White space and line terminators among the code units below 256.\<close>

definition is_space :: "char \<Rightarrow> bool" where
  "is_space c = (of_char c \<in> {9, 10, 11, 12, 13, 32, 160 :: nat})"

definition trim :: "string \<Rightarrow> string" where
  "trim s = rev (dropWhile is_space (rev (dropWhile is_space s)))"

definition startsWith :: "string \<Rightarrow> string \<Rightarrow> bool" where
  "startsWith s p = (take (length p) s = p)"

definition endsWith :: "string \<Rightarrow> string \<Rightarrow> bool" where
  "endsWith s p = (length p \<le> length s \<and> drop (length s - length p) s = p)"

text \<open>
  Lines 175 to 185 of the route: the code fences are cut off the trimmed text.
\<close>

definition clean_response :: "string \<Rightarrow> string" where
  "clean_response responseContent =
     (let s0 = trim responseContent;
          s1 = (if startsWith s0 ''```json'' then drop 7 s0 else s0);
          s2 = (if startsWith s1 ''```'' then drop 3 s1 else s1);
          s3 = (if endsWith s2 ''```'' then take (length s2 - 3) s2 else s2)
      in trim s3)"

section \<open>The research route\<close>

record env =
  GEMINI_API_KEY :: "string option"
  randomUUID :: string
  now_fallback :: string
  now_metadata :: string
  now_generated :: string

text \<open>
  The fixed text of the prompt templates is left out; a prompt is represented by the
  parts that vary with the request.
\<close>

record depth_config =
  cfg_findings :: string
  cfg_sources :: string
  cfg_analysis :: string

definition depthConfigs :: "string \<Rightarrow> depth_config option" where
  "depthConfigs k =
     (if k = ''quick'' then Some \<lparr>cfg_findings = ''4-6 key findings with 2-3 paragraphs each'',
         cfg_sources = ''6-8 diverse sources'',
         cfg_analysis = ''concise but comprehensive analysis''\<rparr>
      else if k = ''standard'' then Some \<lparr>cfg_findings = ''6-10 detailed findings with 3-5 paragraphs each'',
         cfg_sources = ''10-15 diverse sources from multiple categories'',
         cfg_analysis = ''in-depth analysis with statistics, trends, and expert opinions''\<rparr>
      else if k = ''comprehensive'' then Some \<lparr>cfg_findings = ''10-15 extensive findings with 4-6 paragraphs each'',
         cfg_sources = ''15-25 comprehensive sources across all categories'',
         cfg_analysis = ''exhaustive analysis including historical context, current trends, future projections, and multiple expert viewpoints''\<rparr>
      else None)"

text \<open>
  The keys that every object literal inherits from \<open>Object.prototype\<close>. A lookup
  \<open>config[k]\<close> with such a key finds a function (for \<open>__proto__\<close> the prototype
  itself): a truthy value, so the \<open>||\<close> default is not taken, and a value that has
  none of the fields of a configuration.
\<close>

definition inherited_key :: "string \<Rightarrow> bool" where
  "inherited_key k = (k \<in> set
     [''constructor'', ''hasOwnProperty'', ''isPrototypeOf'', ''propertyIsEnumerable'',
      ''toLocaleString'', ''toString'', ''valueOf'', ''__proto__'', ''__defineGetter__'',
      ''__defineSetter__'', ''__lookupGetter__'', ''__lookupSetter__''])"

text \<open>
  \<open>depthConfigs[depth] || depthConfigs.standard\<close>. The fields of an inherited value
  are \<open>undefined\<close>, which the template prints as text.
\<close>

definition getResearchPrompt :: "js_runtime \<Rightarrow> jsval \<Rightarrow> depth_config" where
  "getResearchPrompt rt depth =
     (case depthConfigs (to_string rt depth) of
        Some c \<Rightarrow> c
      | None \<Rightarrow>
          if inherited_key (to_string rt depth)
          then \<lparr>cfg_findings = ''undefined'', cfg_sources = ''undefined'',
                cfg_analysis = ''undefined''\<rparr>
          else \<lparr>cfg_findings = ''6-10 detailed findings with 3-5 paragraphs each'',
         cfg_sources = ''10-15 diverse sources from multiple categories'',
         cfg_analysis = ''in-depth analysis with statistics, trends, and expert opinions''\<rparr>)"

record model_config =
  mc_model :: string
  maxTokens :: nat

definition modelConfig :: "string \<Rightarrow> model_config option" where
  "modelConfig k =
     (if k = ''quick'' then Some \<lparr>mc_model = ''gemini-2.0-flash'', maxTokens = 4000\<rparr>
      else if k = ''standard'' then Some \<lparr>mc_model = ''gemini-2.0-flash'', maxTokens = 8000\<rparr>
      else if k = ''comprehensive'' then Some \<lparr>mc_model = ''gemini-2.0-flash'', maxTokens = 16000\<rparr>
      else None)"

record gen_request =
  gr_model :: string
  maxOutputTokens :: nat
  temperature :: rat
  systemPrompt :: depth_config
  userPrompt :: string

text \<open>
  The generative model: \<open>model.generateContent\<close> followed by \<open>response.text()\<close>. It
  answers with a text or throws.
\<close>

type_synonym provider = "gen_request \<Rightarrow> js_error + string"

record http_response =
  status :: nat
  body :: "jsval option"

definition json_response :: "nat \<Rightarrow> jsval \<Rightarrow> http_response" where
  "json_response st b = \<lparr>status = st, body = Some b\<rparr>"

text \<open>Lines 193 to 209: the data built when \<open>JSON.parse\<close> throws.\<close>

definition fallback_data :: "env \<Rightarrow> string \<Rightarrow> jsval" where
  "fallback_data e responseContent = JObj
     [(''title'', JStr ''Research Findings''),
      (''summary'', JStr (take 500 responseContent)),
      (''findings'', JArr [JObj [(''heading'', JStr ''Analysis''), (''content'', JStr responseContent)]]),
      (''sources'', JArr []),
      (''keyStatistics'', JArr []),
      (''knowledgeGaps'', JArr []),
      (''followUpQuestions'', JArr []),
      (''qualityScore'', JNum (7 / 10)),
      (''researchMetadata'', JObj
         [(''sourcesAnalyzed'', JNum 0),
          (''confidenceLevel'', JStr ''medium''),
          (''topicComplexity'', JStr ''medium''),
          (''dataRecency'', JStr ''Unknown''),
          (''lastUpdated'', JStr (now_fallback e))])]"

text \<open>Lines 218 to 231: the callback of the sources map.\<close>

definition route_source :: "jsval \<Rightarrow> nat \<Rightarrow> js_error + jsval" where
  "route_source source index =
     (if nullish source then Inl TypeError
      else Inr (JObj
        [(''id'', JStr (''source-'' @ string_of_nat (index + 1))),
         (''title'', or_else (property source ''title'') (JStr (''Source '' @ string_of_nat (index + 1)))),
         (''url'', or_else (property source ''url'') (JStr ''#'')),
         (''description'', or_else (property source ''description'') (JStr [])),
         (''reliability'', or_else (property source ''reliability'') (JStr ''medium'')),
         (''type'', or_else (property source ''type'') (JStr ''news''))]))"

text \<open>Lines 232 to 238: the callback of the key statistics map.\<close>

definition route_stat :: "jsval \<Rightarrow> nat \<Rightarrow> js_error + jsval" where
  "route_stat stat index =
     (if nullish stat then Inl TypeError
      else Inr (JObj
        [(''value'', or_else (property stat ''value'') (JStr [])),
         (''context'', or_else (property stat ''context'') (JStr []))]))"

text \<open>Lines 242 to 248.\<close>

definition route_metadata :: "env \<Rightarrow> jsval \<Rightarrow> jsval" where
  "route_metadata e researchData =
     (let md = property researchData ''researchMetadata'' in JObj
        [(''sourcesAnalyzed'',
            or_else (or_else (property md ''sourcesAnalyzed'')
                             (property (property researchData ''sources'') ''length'')) (JNum 0)),
         (''confidenceLevel'', or_else (property md ''confidenceLevel'') (JStr ''medium'')),
         (''topicComplexity'', or_else (property md ''topicComplexity'') (JStr ''medium'')),
         (''dataRecency'', or_else (property md ''dataRecency'') (JStr ''Recent data available'')),
         (''lastUpdated'', or_else (property md ''lastUpdated'') (JStr (now_metadata e)))])"

text \<open>
  Lines 213 to 250: "Ensure all required fields exist". Reading a property of
  \<open>null\<close> throws, and so does \<open>map\<close> on a value that is not an array.
\<close>

definition build_report :: "env \<Rightarrow> jsval \<Rightarrow> js_error + jsval" where
  "build_report e researchData =
     (if nullish researchData then Inl TypeError
      else
        bnd (js_map (or_else (property researchData ''sources'') (JArr [])) route_source) (\<lambda>srcs.
        bnd (js_map (or_else (property researchData ''keyStatistics'') (JArr [])) route_stat) (\<lambda>stats.
        Inr (JObj
          [(''id'', JStr (randomUUID e)),
           (''title'', or_else (property researchData ''title'') (JStr ''Research Report'')),
           (''summary'', or_else (property researchData ''summary'') (JStr [])),
           (''findings'', or_else (property researchData ''findings'') (JArr [])),
           (''sources'', JArr srcs),
           (''keyStatistics'', JArr stats),
           (''knowledgeGaps'', or_else (property researchData ''knowledgeGaps'') (JArr [])),
           (''followUpQuestions'', or_else (property researchData ''followUpQuestions'') (JArr [])),
           (''qualityScore'', or_else (property researchData ''qualityScore'') (JNum (3 / 4))),
           (''researchMetadata'', route_metadata e researchData),
           (''generatedAt'', JStr (now_generated e))]))))"

text \<open>
  Lines 174 to 250, the Report Normalizer: from the text of the provider to the report
  of the response, or to the error that the handler's \<open>catch\<close> receives.
\<close>

definition normalize :: "js_runtime \<Rightarrow> env \<Rightarrow> string \<Rightarrow> js_error + jsval" where
  "normalize rt e responseContent =
     (let cleaned = clean_response responseContent;
          researchData = (case JSON_parse rt cleaned of
                            Some v \<Rightarrow> v
                          | None \<Rightarrow> fallback_data e cleaned)
      in build_report e researchData)"

text \<open>
  \<open>modelConfig[searchDepth] || modelConfig.standard\<close> (line 135): \<open>None\<close> when the
  value found is an inherited one, which has no \<open>model\<close>.
\<close>

definition select_model :: "string \<Rightarrow> model_config option" where
  "select_model k =
     (case modelConfig k of
        Some c \<Rightarrow> Some c
      | None \<Rightarrow> if inherited_key k then None
                else Some \<lparr>mc_model = ''gemini-2.0-flash'', maxTokens = 8000\<rparr>)"

text \<open>
  Lines 126 to 252, once the request is validated and the key is present. Without a
  model name \<open>getGenerativeModel\<close> throws (line 153) and the provider is not called;
  otherwise the provider is called once, and its request is returned with the result.
\<close>

definition generate :: "js_runtime \<Rightarrow> env \<Rightarrow> provider \<Rightarrow> string \<Rightarrow> jsval
    \<Rightarrow> (js_error + jsval) \<times> gen_request list" where
  "generate rt e provider question searchDepth =
     (case select_model (to_string rt searchDepth) of
        None \<Rightarrow> (Inl ClientError, [])
      | Some config \<Rightarrow>
          let request = \<lparr>gr_model = mc_model config, maxOutputTokens = maxTokens config,
                         temperature = 7 / 10,
                         systemPrompt = getResearchPrompt rt searchDepth,
                         userPrompt = question\<rparr>
          in (bnd (provider request) (\<lambda>responseContent.
                if responseContent = [] then Inl (Error ''No response from Gemini'')
                else normalize rt e responseContent),
              [request]))"

definition research_failed :: "js_runtime \<Rightarrow> js_error \<Rightarrow> http_response" where
  "research_failed rt err = json_response 500
     (JObj [(''error'', JStr ''Research failed''), (''message'', JStr (error_message rt err))])"

text \<open>
  \<open>POST\<close>: the request body is the result of \<open>request.json()\<close>. The second component is
  the list of the calls made to the provider.
\<close>

definition POST :: "js_runtime \<Rightarrow> env \<Rightarrow> provider \<Rightarrow> js_error + jsval
    \<Rightarrow> http_response \<times> gen_request list" where
  "POST rt e provider request_json =
     (case request_json of
        Inl err \<Rightarrow> (research_failed rt err, [])
      | Inr b \<Rightarrow>
          if nullish b then (research_failed rt TypeError, [])
          else
            let question = property b ''question'';
                searchDepth = (if property b ''searchDepth'' = Undefined then JStr ''standard''
                               else property b ''searchDepth'')
            in if \<not> truthy question \<or> \<not> is_string question
               then (json_response 400 (JObj [(''error'', JStr ''Question is required'')]), [])
               else if GEMINI_API_KEY e = None \<or> GEMINI_API_KEY e = Some []
               then (json_response 503
                       (JObj [(''error'', JStr ''API not configured''),
                              (''message'', JStr ''Please add GEMINI_API_KEY to your .env.local file'')]),
                     [])
               else
                 (case generate rt e provider (to_string rt question) searchDepth of
                    (Inr report, reqs) \<Rightarrow>
                      (json_response 200 (JObj [(''success'', JBool True), (''report'', report)]), reqs)
                  | (Inl err, reqs) \<Rightarrow> (research_failed rt err, reqs)))"

section \<open>The session hook\<close>

datatype research_phase = Idle | Researching | Completed | Error_phase

datatype update_type = Info | Search | Analyze | Synthesize

text \<open>
  What a code segment draws from its environment: a result of \<open>generateId()\<close>, the
  clock of \<open>new Date()\<close> as ISO text, and \<open>Math.floor(Math.random() * 3)\<close>, a number
  among 0, 1 and 2.
\<close>

record fresh =
  gen_id :: string
  clock :: string
  random3 :: nat

record research_question =
  q_id :: string
  q_text :: string
  q_timestamp :: string

record progress_update =
  pu_id :: string
  message :: string
  pu_type :: update_type
  pu_timestamp :: string
  pu_sourcesAnalyzed :: "nat option"

record report_section =
  sec_id :: string
  sec_title :: jsval
  sec_content :: jsval
  citations :: jsval

record source =
  src_id :: rat
  src_title :: jsval
  src_url :: jsval
  publishedDate :: jsval
  author :: jsval
  src_type :: jsval

record research_report =
  rep_id :: jsval
  question :: string
  executiveSummary :: jsval
  sections :: "report_section list"
  sources :: "source list"
  knowledgeGaps :: jsval
  generatedAt :: jsval
  researchDuration :: nat

record conversation_entry =
  ce_id :: string
  ce_question :: "research_question option"
  ce_report :: research_report

record research_state =
  phase :: research_phase
  currentQuestion :: "research_question option"
  progressUpdates :: "progress_update list"
  currentReport :: "research_report option"
  conversationHistory :: "conversation_entry list"
  error :: "string option"
  sourcesAnalyzed :: nat

definition initialState :: research_state where
  "initialState = \<lparr>phase = Idle, currentQuestion = None, progressUpdates = [],
     currentReport = None, conversationHistory = [], error = None, sourcesAnalyzed = 0\<rparr>"

definition progressSteps :: "(string \<times> update_type) list" where
  "progressSteps =
     [(''Analyzing your research question...'', Analyze),
      (''Searching for relevant information...'', Search),
      (''Evaluating source credibility...'', Analyze),
      (''Cross-referencing data points...'', Analyze),
      (''Synthesizing findings...'', Synthesize),
      (''Generating comprehensive report...'', Synthesize)]"

subsection \<open>From the response of the route to the report of the session\<close>

text \<open>Lines 390 to 395 of the hook: the callback of the sections map.\<close>

definition hook_section :: "jsval \<Rightarrow> nat \<Rightarrow> js_error + report_section" where
  "hook_section section idx =
     (if nullish section then Inl TypeError
      else Inr \<lparr>sec_id = ''section-'' @ string_of_nat (idx + 1),
                sec_title = or_else (or_else (property section ''heading'') (property section ''title''))
                                    (JStr (''Section '' @ string_of_nat (idx + 1))),
                sec_content = property section ''content'',
                citations = or_else (property section ''citations'') (JArr [])\<rparr>)"

text \<open>
  Lines 396 to 403: the callback of the sources map. The id of the response is kept
  when it is a number.
\<close>

definition hook_source :: "fresh \<Rightarrow> jsval \<Rightarrow> nat \<Rightarrow> js_error + source" where
  "hook_source f s idx =
     (if nullish s then Inl TypeError
      else Inr \<lparr>src_id = (case property s ''id'' of JNum n \<Rightarrow> n | _ \<Rightarrow> of_nat (idx + 1)),
                src_title = property s ''title'',
                src_url = property s ''url'',
                publishedDate = or_else (property s ''publishedDate'')
                                        (JStr (takeWhile (\<lambda>c. c \<noteq> CHR ''T'') (clock f))),
                author = property s ''author'',
                src_type = or_else (property s ''type'') (JStr ''article'')\<rparr>)"

text \<open>
  Lines 380 to 407: the report built from the parsed body of a successful response. The
  date \<open>generatedAt\<close> is represented by the argument of its constructor.
\<close>

definition make_report :: "fresh \<Rightarrow> string \<Rightarrow> jsval \<Rightarrow> js_error + research_report" where
  "make_report f questionText data =
     (if nullish data then Inl TypeError
      else if \<not> truthy (property data ''success'') \<or> \<not> truthy (property data ''report'')
      then Inl (Error ''Invalid response from research API'')
      else
        let report = property data ''report'' in
        bnd (js_map (or_else (or_else (property report ''findings'') (property report ''sections''))
                             (JArr [])) hook_section) (\<lambda>secs.
        bnd (js_map (or_else (property report ''sources'') (JArr [])) (hook_source f)) (\<lambda>srcs.
        Inr \<lparr>rep_id = or_else (property report ''id'') (JStr (gen_id f)),
             question = questionText,
             executiveSummary = or_else (or_else (property report ''summary'')
                                                 (property report ''executiveSummary'')) (JStr []),
             sections = secs,
             sources = srcs,
             knowledgeGaps = or_else (property report ''knowledgeGaps'') (JArr []),
             generatedAt = or_else (property report ''generatedAt'') (JStr (clock f)),
             researchDuration = 30\<rparr>)))"

definition ok :: "http_response \<Rightarrow> bool" where
  "ok response = (200 \<le> status response \<and> status response \<le> 299)"

text \<open>
  Lines 375 to 407: the report, or the error thrown into the \<open>catch\<close> of line 430. A
  body that is not JSON (\<open>None\<close>) makes \<open>response.json()\<close> reject.
\<close>

definition read_response :: "js_runtime \<Rightarrow> fresh \<Rightarrow> string \<Rightarrow> http_response
    \<Rightarrow> js_error + research_report" where
  "read_response rt f questionText response =
     (if \<not> ok response then
        (let errorData = (case body response of Some d \<Rightarrow> d | None \<Rightarrow> JObj []) in
         if nullish errorData then Inl TypeError
         else Inl (Error (to_string rt
                (or_else (property errorData ''message'')
                         (JStr (''API error: '' @ string_of_nat (status response)))))))
      else (case body response of
              None \<Rightarrow> Inl SyntaxError
            | Some data \<Rightarrow> make_report f questionText data))"

text \<open>Line 370: the body that the hook sends to the route.\<close>

definition request_body :: "string \<Rightarrow> string \<Rightarrow> jsval" where
  "request_body questionText searchDepth =
     JObj [(''question'', JStr questionText), (''searchDepth'', JStr searchDepth)]"

subsection \<open>The hook as a machine\<close>

text \<open>
  An invocation of \<open>startResearch\<close> runs up to its next \<open>await\<close> and is resumed later;
  between the two, timers and other calls of the hook run. An invocation is recorded with
  the variables of its closure and the \<open>await\<close> at which it is suspended:
  the database calls of lines 322 to 328 (signed-in user only), \<open>fetch\<close> (line 367),
  \<open>response.json()\<close> (lines 376 and 380), \<open>saveToDatabase\<close> (line 411) and the
  status update of line 439 (both only with a user and a query id).
\<close>

datatype stage =
    AwaitDb
  | AwaitFetch
  | AwaitJson http_response
  | AwaitSave research_report
  | AwaitFailed string
  | Finished

record invocation =
  questionText :: string
  user :: bool
  queryId :: "string option"
  searchDepth :: string
  progressIndex :: nat
  sourcesCount :: nat
  awaiting :: stage

text \<open>
  The hook: its React state, the reference to the interval, the intervals that the
  timer system still fires, and the invocations of \<open>startResearch\<close> so far. An
  invocation creates at most one interval; the interval carries the invocation's index.
\<close>

record hook =
  state :: research_state
  currentQueryId :: "string option"
  progressIntervalRef :: "nat option"
  intervals :: "nat set"
  invocations :: "invocation list"

definition initial_hook :: hook where
  "initial_hook = \<lparr>state = initialState, currentQueryId = None, progressIntervalRef = None,
     intervals = {}, invocations = []\<rparr>"

definition clearProgress :: "hook \<Rightarrow> hook" where
  "clearProgress h =
     (case progressIntervalRef h of
        None \<Rightarrow> h
      | Some i \<Rightarrow> h\<lparr>intervals := intervals h - {i}, progressIntervalRef := None\<rparr>)"

definition setState :: "(research_state \<Rightarrow> research_state) \<Rightarrow> hook \<Rightarrow> hook" where
  "setState upd h = h\<lparr>state := upd (state h)\<rparr>"

definition addProgressUpdate :: "progress_update \<Rightarrow> hook \<Rightarrow> hook" where
  "addProgressUpdate update =
     setState (\<lambda>prev. prev\<lparr>progressUpdates := progressUpdates prev @ [update],
        sourcesAnalyzed := (case pu_sourcesAnalyzed update of
                              Some n \<Rightarrow> n
                            | None \<Rightarrow> sourcesAnalyzed prev)\<rparr>)"

definition set_invocation :: "nat \<Rightarrow> (invocation \<Rightarrow> invocation) \<Rightarrow> hook \<Rightarrow> hook" where
  "set_invocation c upd h = h\<lparr>invocations := (invocations h)[c := upd (invocations h ! c)]\<rparr>"

text \<open>Lines 341 to 357: \<open>showProgress\<close> in the closure of invocation \<open>c\<close>.\<close>

definition showProgress :: "fresh \<Rightarrow> nat \<Rightarrow> hook \<Rightarrow> hook" where
  "showProgress f c h =
     (let iv = invocations h ! c in
      if progressIndex iv < length progressSteps then
        let step = progressSteps ! progressIndex iv;
            count = (if snd step = Analyze then sourcesCount iv + (random3 f + 2)
                     else sourcesCount iv)
        in set_invocation c (\<lambda>i. i\<lparr>sourcesCount := count, progressIndex := progressIndex iv + 1\<rparr>)
             (addProgressUpdate
                \<lparr>pu_id = gen_id f, message = fst step, pu_type = snd step,
                 pu_timestamp = clock f, pu_sourcesAnalyzed = Some count\<rparr> h)
      else h)"

text \<open>Lines 298 to 318: the start of \<open>startResearch\<close>, up to the test of \<open>user\<close>.\<close>

definition begin_research :: "fresh \<Rightarrow> string \<Rightarrow> bool \<Rightarrow> hook \<Rightarrow> hook" where
  "begin_research f text u h =
     (let h1 = setState (\<lambda>prev. prev\<lparr>phase := Researching,
                  currentQuestion := Some \<lparr>q_id = gen_id f, q_text = text, q_timestamp = clock f\<rparr>,
                  progressUpdates := [], currentReport := None, error := None,
                  sourcesAnalyzed := 0\<rparr>) (clearProgress h)
      in h1\<lparr>invocations := invocations h1 @
              [\<lparr>questionText = text, user = u, queryId = None, searchDepth = ''standard'',
                progressIndex = 0, sourcesCount = 0, awaiting = AwaitDb\<rparr>]\<rparr>)"

text \<open>
  Lines 338 to 367: the first progress update, the interval stored in the reference
  (whatever the reference held), and the request sent.
\<close>

definition launch :: "fresh \<Rightarrow> nat \<Rightarrow> hook \<Rightarrow> hook" where
  "launch f c h =
     (let h1 = showProgress f c h
      in set_invocation c (\<lambda>i. i\<lparr>awaiting := AwaitFetch\<rparr>)
           (h1\<lparr>intervals := insert c (intervals h1), progressIntervalRef := Some c\<rparr>))"

definition startResearch :: "fresh \<Rightarrow> fresh \<Rightarrow> string \<Rightarrow> bool \<Rightarrow> hook \<Rightarrow> hook" where
  "startResearch fq fp text u h =
     (let c = length (invocations h);
          h1 = begin_research fq text u h
      in if u then h1 else launch fp c h1)"

text \<open>\<open>user && queryId\<close>\<close>

definition has_query :: "invocation \<Rightarrow> bool" where
  "has_query iv = (user iv \<and> (case queryId iv of Some q \<Rightarrow> q \<noteq> [] | None \<Rightarrow> False))"

text \<open>Lines 414 to 428.\<close>

definition complete :: "fresh \<Rightarrow> research_report \<Rightarrow> hook \<Rightarrow> hook" where
  "complete f report =
     setState (\<lambda>prev. prev\<lparr>phase := Completed, currentReport := Some report,
        conversationHistory := conversationHistory prev @
          [\<lparr>ce_id = gen_id f, ce_question = currentQuestion prev, ce_report = report\<rparr>],
        sourcesAnalyzed := length (sources report)\<rparr>)"

text \<open>Lines 445 to 449.\<close>

definition fail_with :: "string \<Rightarrow> hook \<Rightarrow> hook" where
  "fail_with errorMessage = setState (\<lambda>prev. prev\<lparr>phase := Error_phase, error := Some errorMessage\<rparr>)"

text \<open>Lines 430 to 449: the \<open>catch\<close> of \<open>startResearch\<close>.\<close>

definition catch_error :: "js_runtime \<Rightarrow> nat \<Rightarrow> js_error \<Rightarrow> hook \<Rightarrow> hook" where
  "catch_error rt c err h =
     (let h1 = clearProgress h;
          errorMessage = error_message rt err
      in if has_query (invocations h ! c)
         then set_invocation c (\<lambda>i. i\<lparr>awaiting := AwaitFailed errorMessage\<rparr>) h1
         else set_invocation c (\<lambda>i. i\<lparr>awaiting := Finished\<rparr>) (fail_with errorMessage h1))"

definition reset :: "hook \<Rightarrow> hook" where
  "reset h = (clearProgress h)\<lparr>currentQueryId := None, state := initialState\<rparr>"

definition setError :: "string \<Rightarrow> hook \<Rightarrow> hook" where
  "setError err h = fail_with err (clearProgress h)"

text \<open>
  What can happen to the hook: a call of one of its operations, a tick of an interval,
  or the settlement of the promise an invocation awaits. \<open>DbDone c qid depth\<close> ends
  the database calls of invocation \<open>c\<close>: \<open>qid\<close> is the id of the query when
  \<open>createResearchQuery\<close> succeeded, \<open>depth\<close> the preferred depth when the preferences
  were read as well. An event that does not fit the stage of its invocation changes
  nothing.
\<close>

datatype event =
    StartResearch string bool fresh fresh
  | SubmitFollowUp string bool fresh fresh
  | Reset
  | SetError string
  | Tick nat fresh
  | DbDone nat "string option" "string option" fresh
  | FetchDone nat "js_error + http_response"
  | JsonDone nat fresh fresh
  | SaveDone nat fresh
  | FailedDone nat

definition stage_of :: "hook \<Rightarrow> nat \<Rightarrow> stage" where
  "stage_of h c = (if c < length (invocations h) then awaiting (invocations h ! c) else Finished)"

fun step :: "js_runtime \<Rightarrow> event \<Rightarrow> hook \<Rightarrow> hook" where
  "step rt (StartResearch text u fq fp) h = startResearch fq fp text u h"
| "step rt (SubmitFollowUp text u fq fp) h = startResearch fq fp text u h"
| "step rt Reset h = reset h"
| "step rt (SetError err) h = setError err h"
| "step rt (Tick c f) h =
     (if c \<in> intervals h \<and> c < length (invocations h) then showProgress f c h else h)"
| "step rt (DbDone c qid depth f) h =
     (case stage_of h c of
        AwaitDb \<Rightarrow>
          launch f c
            (set_invocation c
               (\<lambda>i. i\<lparr>queryId := qid,
                       searchDepth := (case (qid, depth) of
                                         (Some q, Some d) \<Rightarrow> if d = [] then ''standard'' else d
                                       | _ \<Rightarrow> ''standard'')\<rparr>)
               (case qid of None \<Rightarrow> h | Some q \<Rightarrow> h\<lparr>currentQueryId := Some q\<rparr>))
      | _ \<Rightarrow> h)"
| "step rt (FetchDone c result) h =
     (case stage_of h c of
        AwaitFetch \<Rightarrow>
          (case result of
             Inl err \<Rightarrow> catch_error rt c err h
           | Inr response \<Rightarrow> set_invocation c (\<lambda>i. i\<lparr>awaiting := AwaitJson response\<rparr>) (clearProgress h))
      | _ \<Rightarrow> h)"
| "step rt (JsonDone c fr fe) h =
     (case stage_of h c of
        AwaitJson response \<Rightarrow>
          (case read_response rt fr (questionText (invocations h ! c)) response of
             Inl err \<Rightarrow> catch_error rt c err h
           | Inr report \<Rightarrow>
               if has_query (invocations h ! c)
               then set_invocation c (\<lambda>i. i\<lparr>awaiting := AwaitSave report\<rparr>) h
               else set_invocation c (\<lambda>i. i\<lparr>awaiting := Finished\<rparr>) (complete fe report h))
      | _ \<Rightarrow> h)"
| "step rt (SaveDone c fe) h =
     (case stage_of h c of
        AwaitSave report \<Rightarrow> set_invocation c (\<lambda>i. i\<lparr>awaiting := Finished\<rparr>) (complete fe report h)
      | _ \<Rightarrow> h)"
| "step rt (FailedDone c) h =
     (case stage_of h c of
        AwaitFailed errorMessage \<Rightarrow>
          set_invocation c (\<lambda>i. i\<lparr>awaiting := Finished\<rparr>) (fail_with errorMessage h)
      | _ \<Rightarrow> h)"

definition run :: "js_runtime \<Rightarrow> event list \<Rightarrow> hook \<Rightarrow> hook" where
  "run rt evs h = foldl (\<lambda>s ev. step rt ev s) h evs"

section \<open>Properties: vocabulary and sample inputs\<close>

text \<open>A source of the route's report: an object whose \<open>id\<close> is a string.\<close>

definition has_string_id :: "jsval \<Rightarrow> bool" where
  "has_string_id y = (\<not> nullish y \<and> is_string (property y ''id''))"

definition report_field :: "js_error + jsval \<Rightarrow> string \<Rightarrow> jsval" where
  "report_field r k = (case r of Inr v \<Rightarrow> property v k | Inl err \<Rightarrow> Undefined)"

text \<open>
  The edges of the specification's state machine (section 4.1): \<open>idle\<close> to
  \<open>researching\<close>, \<open>researching\<close> to \<open>completed\<close> or \<open>error\<close>, \<open>completed\<close> and
  \<open>error\<close> back to \<open>researching\<close>, and any phase to \<open>idle\<close> by \<open>reset()\<close>.
\<close>

definition spec_phase_edge :: "event \<Rightarrow> research_phase \<Rightarrow> research_phase \<Rightarrow> bool" where
  "spec_phase_edge ev p q =
     ((p = Idle \<and> q = Researching) \<or> (p = Researching \<and> q = Completed)
      \<or> (p = Researching \<and> q = Error_phase) \<or> (p = Completed \<and> q = Researching)
      \<or> (p = Error_phase \<and> q = Researching) \<or> (ev = Reset \<and> q = Idle))"

text \<open>The events that apply a result of the pipeline or an error to the session.\<close>

fun applies_result :: "event \<Rightarrow> bool" where
  "applies_result (SetError err) = True"
| "applies_result (FetchDone c (Inl err)) = True"
| "applies_result (JsonDone c fr fe) = True"
| "applies_result (SaveDone c fe) = True"
| "applies_result (FailedDone c) = True"
| "applies_result ev = False"

text \<open>
  A runtime that agrees with the engine on the texts used in the examples below: the
  texts of the table parse as shown, and the other texts of the examples
  (\<open>Sure!\<close>) are not JSON.
\<close>

definition sample_runtime :: js_runtime where
  \<open>sample_runtime =
     \<lparr>JSON_parse = map_of
        [(''null'', Null),
         (''{"title":"EV batteries","sources":"N/A"}'',
            JObj [(''title'', JStr ''EV batteries''), (''sources'', JStr ''N/A'')]),
         (''{"qualityScore":0}'', JObj [(''qualityScore'', JNum 0)]),
         (''{"qualityScore":0.9}'', JObj [(''qualityScore'', JNum (9 / 10))]),
         (''{}'', JObj []),
         (''{"sources":[{"id":7,"title":"S"},{"id":9}]}'',
            JObj [(''sources'', JArr [JObj [(''id'', JNum 7), (''title'', JStr ''S'')],
                                      JObj [(''id'', JNum 9)]])])],
      ToString = (\<lambda>v. ''[object Object]''),
      engine_message = (\<lambda>err. case err of
                                SyntaxError \<Rightarrow> ''Unexpected token''
                              | ClientError \<Rightarrow> ''Must provide a model name''
                              | _ \<Rightarrow> ''Cannot read properties of null'')\<rparr>\<close>

definition sample_env :: env where
  "sample_env = \<lparr>GEMINI_API_KEY = Some ''key'', randomUUID = ''uuid-1'',
     now_fallback = ''2026-01-01T00:00:00.000Z'', now_metadata = ''2026-01-01T00:00:00.001Z'',
     now_generated = ''2026-01-01T00:00:00.002Z''\<rparr>"

definition sample_fresh :: fresh where
  "sample_fresh = \<lparr>gen_id = ''1767225600000-abc'', clock = ''2026-01-01T00:00:03.000Z'', random3 = 1\<rparr>"

text \<open>A provider that answers every request with the given text.\<close>

definition answer :: "string \<Rightarrow> provider" where
  "answer text request = Inr text"

definition two_sources_text :: string where
  \<open>two_sources_text = ''{"sources":[{"id":7,"title":"S"},{"id":9}]}''\<close>

definition topic_A_response :: http_response where
  "topic_A_response =
     fst (POST sample_runtime sample_env (answer two_sources_text)
            (Inr (request_body ''Topic A'' ''standard'')))"

definition topic_A_report :: research_report where
  "topic_A_report =
     \<lparr>rep_id = JStr ''uuid-1'', question = ''Topic A'', executiveSummary = JStr [],
      sections = [],
      sources =
        [\<lparr>src_id = 1, src_title = JStr ''S'', src_url = JStr ''#'',
          publishedDate = JStr ''2026-01-01'', author = Undefined, src_type = JStr ''news''\<rparr>,
         \<lparr>src_id = 2, src_title = JStr ''Source 2'', src_url = JStr ''#'',
          publishedDate = JStr ''2026-01-01'', author = Undefined, src_type = JStr ''news''\<rparr>],
      knowledgeGaps = JArr [], generatedAt = JStr ''2026-01-01T00:00:00.002Z'',
      researchDuration = 30\<rparr>"

text \<open>
  \<open>startResearch("Topic A")\<close>, then \<open>startResearch("Topic B")\<close> before the response
  for A, then the response for A; nobody is signed in.
\<close>

definition stale_trace :: "event list" where
  "stale_trace =
     [StartResearch ''Topic A'' False sample_fresh sample_fresh,
      StartResearch ''Topic B'' False sample_fresh sample_fresh,
      FetchDone 0 (Inr topic_A_response),
      JsonDone 0 sample_fresh sample_fresh]"

text \<open>\<open>startResearch("Topic A")\<close>, then \<open>reset()\<close>, then the response for A.\<close>

definition stale_after_reset_trace :: "event list" where
  "stale_after_reset_trace =
     [StartResearch ''Topic A'' False sample_fresh sample_fresh,
      Reset,
      FetchDone 0 (Inr topic_A_response),
      JsonDone 0 sample_fresh sample_fresh]"

text \<open>
  A signed-in user: \<open>startResearch("Topic A")\<close> is suspended in the database calls of
  lines 322 to 328 when \<open>reset()\<close> is called; it is resumed afterwards, and its interval
  ticks once.
\<close>

definition late_launch_trace :: "event list" where
  "late_launch_trace =
     [StartResearch ''Topic A'' True sample_fresh sample_fresh,
      Reset,
      DbDone 0 (Some ''query-1'') None sample_fresh,
      Tick 0 sample_fresh]"

definition unconfigured_env :: env where
  "unconfigured_env = sample_env\<lparr>GEMINI_API_KEY := None\<rparr>"

definition unconfigured_response :: http_response where
  "unconfigured_response =
     fst (POST sample_runtime unconfigured_env (answer two_sources_text)
            (Inr (request_body ''Topic A'' ''standard'')))"

text \<open>Vocabulary for the runs of the hook.\<close>

fun is_start :: "event \<Rightarrow> bool" where
  "is_start (StartResearch q u fq fp) = True"
| "is_start (SubmitFollowUp q u fq fp) = True"
| "is_start ev = False"

fun signed_out :: "event \<Rightarrow> bool" where
  "signed_out (StartResearch q u fq fp) = (\<not> u)"
| "signed_out (SubmitFollowUp q u fq fp) = (\<not> u)"
| "signed_out ev = True"

text \<open>No invocation is suspended before line 338, where its scheduler starts.\<close>

definition launched :: "hook \<Rightarrow> bool" where
  "launched h = (\<forall>c < length (invocations h). awaiting (invocations h ! c) \<noteq> AwaitDb)"

text \<open>Every interval that can still fire is the one the reference holds.\<close>

definition tidy :: "hook \<Rightarrow> bool" where
  "tidy h = (intervals h \<subseteq> set_option (progressIntervalRef h) \<and> launched h)"

definition silent :: "hook \<Rightarrow> bool" where
  "silent h = (intervals h = {} \<and> launched h \<and> progressUpdates (state h) = [])"

section \<open>Properties of the Report Normalizer\<close>

lemma bnd_Inr_iff: "bnd m f = Inr y \<longleftrightarrow> (\<exists>x. m = Inr x \<and> f x = Inr y)"
  by (cases m) (simp_all add: bnd_def)

lemma clean_sure: "clean_response ''Sure! '' = ''Sure!''"
  by (simp add: clean_response_def trim_def is_space_def startsWith_def endsWith_def)

subsection \<open>Source ids\<close>

lemma route_source_string_id: "route_source x i = Inr y \<Longrightarrow> has_string_id y"
  by (auto simp: route_source_def has_string_id_def split: if_splits)

lemma map_index_route_source:
  "map_index route_source k xs = Inr ys \<Longrightarrow> list_all has_string_id ys"
proof (induction xs arbitrary: k ys)
  case Nil
  then show ?case by simp
next
  case (Cons x xs)
  then show ?case
    by (auto simp: bnd_Inr_iff dest: route_source_string_id)
qed

lemma hook_source_id:
  "has_string_id y \<Longrightarrow> hook_source f y idx = Inr z \<Longrightarrow> src_id z = of_nat (idx + 1)"
  by (cases "property y ''id''") (auto simp: hook_source_def has_string_id_def split: if_splits)

lemma map_index_hook_source:
  "map_index (hook_source f) k ys = Inr zs \<Longrightarrow> list_all has_string_id ys \<Longrightarrow> i < length zs
   \<Longrightarrow> src_id (zs ! i) = of_nat (k + i + 1)"
proof (induction ys arbitrary: k zs i)
  case Nil
  then show ?case by simp
next
  case (Cons y ys)
  from Cons.prems(1) obtain z zs' where
    z: "hook_source f y k = Inr z" and zs': "map_index (hook_source f) (Suc k) ys = Inr zs'"
    and eq: "zs = z # zs'"
    by (auto simp: bnd_Inr_iff)
  show ?case
  proof (cases i)
    case 0
    with Cons.prems z eq show ?thesis
      using hook_source_id [of y f k z] by simp
  next
    case (Suc j)
    with Cons.prems eq have "j < length zs'" by simp
    with Cons.IH [OF zs', of j] Cons.prems(2) have "src_id (zs' ! j) = of_nat (Suc k + j + 1)"
      by simp
    with Suc eq show ?thesis by simp
  qed
qed

lemma build_report_sources:
  "build_report e rd = Inr rep \<Longrightarrow>
   \<exists>srcs. property rep ''sources'' = JArr srcs \<and> list_all has_string_id srcs \<and> truthy rep"
  by (auto simp: build_report_def bnd_Inr_iff js_map_def split: if_splits jsval.splits
           dest: map_index_route_source)

lemma POST_ok_body:
  assumes "POST rt e provider request_json = (response, reqs)" and "ok response"
  shows "\<exists>rep rd. body response = Some (JObj [(''success'', JBool True), (''report'', rep)])
           \<and> build_report e rd = Inr rep"
  using assms
  by (auto simp: POST_def research_failed_def json_response_def ok_def generate_def Let_def
        normalize_def bnd_Inr_iff
      split: sum.splits if_splits prod.splits option.splits)

text \<open>
  C2. In every report that the hook builds from a response of the route, the sources
  carry the ids 1, 2, ... in array order: \<open>sources[i].id = i + 1\<close>, whatever ids the
  provider's text gave. The route writes the ids \<open>source-1\<close>, \<open>source-2\<close>, ..., which are
  strings, so the hook numbers every source by its index.
\<close>

theorem source_ids_dense:
  assumes "POST rt e provider request_json = (response, reqs)"
      and "read_response rt' f text response = Inr report"
      and "i < length (sources report)"
  shows "src_id (sources report ! i) = of_nat (i + 1)"
proof -
  from assms(2) have okr: "ok response"
    by (auto simp: read_response_def Let_def split: if_splits)
  from POST_ok_body [OF assms(1) okr] obtain rep rd where
    b: "body response = Some (JObj [(''success'', JBool True), (''report'', rep)])"
    and br: "build_report e rd = Inr rep" by blast
  from build_report_sources [OF br] obtain srcs where
    s: "property rep ''sources'' = JArr srcs" "list_all has_string_id srcs" "truthy rep" by blast
  from assms(2) okr b
  have "make_report f text (JObj [(''success'', JBool True), (''report'', rep)]) = Inr report"
    by (simp add: read_response_def)
  with s have "map_index (hook_source f) 0 srcs = Inr (sources report)"
    by (auto simp: make_report_def Let_def bnd_Inr_iff or_else_def js_map_def split: if_splits)
  from map_index_hook_source [OF this s(2) assms(3)] show ?thesis by simp
qed

theorem source_ids_dense_witness:
  "POST sample_runtime sample_env (answer two_sources_text) (Inr (request_body ''Topic A'' ''standard''))
     = (topic_A_response, snd (POST sample_runtime sample_env (answer two_sources_text)
                                 (Inr (request_body ''Topic A'' ''standard''))))
   \<and> read_response sample_runtime sample_fresh ''Topic A'' topic_A_response = Inr topic_A_report
   \<and> (1::nat) < length (sources topic_A_report)
   \<and> src_id (sources topic_A_report ! 1) = 2"
proof -
  have p: "POST sample_runtime sample_env (answer two_sources_text) (Inr (request_body ''Topic A'' ''standard''))
     = (topic_A_response, snd (POST sample_runtime sample_env (answer two_sources_text)
                                 (Inr (request_body ''Topic A'' ''standard''))))"
    by (simp add: topic_A_response_def)
  have r: "read_response sample_runtime sample_fresh ''Topic A'' topic_A_response = Inr topic_A_report"
    by code_simp
  have l: "(1::nat) < length (sources topic_A_report)"
    by (simp add: topic_A_report_def)
  from source_ids_dense [OF p r l] p r l show ?thesis by simp
qed

subsection \<open>Totality\<close>

text \<open>
  C3. The Normalizer is claimed to return a report for every text. When the provider's
  text is the JSON literal \<open>null\<close>, or an object whose \<open>sources\<close> is not an array,
  \<open>JSON.parse\<close> succeeds and the construction of the report throws a TypeError: the
  route answers with status 500 and no report.
\<close>

theorem normalizer_throws_on_parsed_json:
  \<open>normalize sample_runtime sample_env ''null'' = Inl TypeError
   \<and> normalize sample_runtime sample_env ''{"title":"EV batteries","sources":"N/A"}'' = Inl TypeError
   \<and> status (fst (POST sample_runtime sample_env (answer ''null'')
                    (Inr (request_body ''What are EV battery trends?'' ''standard'')))) = 500\<close>
  by code_simp

theorem normalizer_throws_on_parsed_json_witness:
  "isl (normalize sample_runtime sample_env ''null'')
   \<and> \<not> ok (fst (POST sample_runtime sample_env (answer ''null'')
                    (Inr (request_body ''What are EV battery trends?'' ''standard''))))"
  using normalizer_throws_on_parsed_json by (simp add: ok_def)

subsection \<open>The fallback report\<close>

text \<open>
  C4, as stated: the section of the fallback report holds the entire raw text.
  For the text \<open>Sure! \<close>, which ends with a space, it holds \<open>Sure!\<close>: the text
  was trimmed before \<open>JSON.parse\<close> was tried.
\<close>

theorem fallback_content_counterexample:
  "JSON_parse sample_runtime (clean_response ''Sure! '') = None
   \<and> report_field (normalize sample_runtime sample_env ''Sure! '') ''findings''
       = JArr [JObj [(''heading'', JStr ''Analysis''), (''content'', JStr ''Sure!'')]]
   \<and> JStr ''Sure!'' \<noteq> JStr ''Sure! ''"
  by code_simp

text \<open>
  C4, amended. When \<open>JSON.parse\<close> fails on the cleaned text (the provider's text trimmed
  and without its code fences), the report has the title \<open>Research Findings\<close>, the
  first 500 characters of the cleaned text as summary, exactly one finding with the
  heading \<open>Analysis\<close> whose content is the entire cleaned text, no sources, no
  knowledge gaps, and the quality score 0.7.
\<close>

theorem parse_failure_fallback:
  assumes "JSON_parse rt (clean_response raw) = None"
  shows "\<exists>r. normalize rt e raw = Inr r
           \<and> property r ''title'' = JStr ''Research Findings''
           \<and> property r ''summary'' = JStr (take 500 (clean_response raw))
           \<and> property r ''findings''
               = JArr [JObj [(''heading'', JStr ''Analysis''), (''content'', JStr (clean_response raw))]]
           \<and> property r ''sources'' = JArr []
           \<and> property r ''knowledgeGaps'' = JArr []
           \<and> property r ''qualityScore'' = JNum (7 / 10)"
  using assms
  by (simp add: normalize_def fallback_data_def build_report_def js_map_def or_else_def bnd_def
        Let_def)

theorem parse_failure_fallback_witness:
  "JSON_parse sample_runtime (clean_response ''Sure! '') = None
   \<and> (\<exists>r. normalize sample_runtime sample_env ''Sure! '' = Inr r
           \<and> property r ''title'' = JStr ''Research Findings''
           \<and> property r ''summary'' = JStr ''Sure!''
           \<and> property r ''findings''
               = JArr [JObj [(''heading'', JStr ''Analysis''), (''content'', JStr ''Sure!'')]]
           \<and> property r ''sources'' = JArr []
           \<and> property r ''knowledgeGaps'' = JArr []
           \<and> property r ''qualityScore'' = JNum (7 / 10))"
proof -
  have h: "JSON_parse sample_runtime (clean_response ''Sure! '') = None"
    by (simp add: clean_sure sample_runtime_def)
  from parse_failure_fallback [OF h, of sample_env] h show ?thesis
    by (simp add: clean_sure)
qed

subsection \<open>The quality score\<close>

text \<open>
  C9, as stated: a quality score present in the parsed JSON is kept. For the text
  \<open>{"qualityScore":0}\<close> the report carries 0.75: \<open>0 || 0.75\<close> is \<open>0.75\<close>.
\<close>

theorem quality_score_zero_counterexample:
  \<open>JSON_parse sample_runtime (clean_response ''{"qualityScore":0}'') = Some (JObj [(''qualityScore'', JNum 0)])
   \<and> report_field (normalize sample_runtime sample_env ''{"qualityScore":0}'') ''qualityScore'' = JNum (3 / 4)\<close>
  by code_simp

lemma normalize_parsed:
  "JSON_parse rt (clean_response raw) = Some rd \<Longrightarrow> \<not> isl (normalize rt e raw)
   \<Longrightarrow> report_field (normalize rt e raw) ''qualityScore''
       = or_else (property rd ''qualityScore'') (JNum (3 / 4))"
  by (cases "normalize rt e raw")
     (auto simp: normalize_def build_report_def bnd_Inr_iff report_field_def split: if_splits)

text \<open>
  C9, amended. When parsing succeeds and a report is built, the report keeps a
  \<open>qualityScore\<close> of the JSON that is present and truthy (for a number: not zero), and
  it carries 0.75 when the field is absent. When parsing fails the report carries 0.7.
\<close>

theorem quality_score_defaulting:
  "(JSON_parse rt (clean_response raw) = Some rd \<and> truthy (property rd ''qualityScore'')
      \<and> \<not> isl (normalize rt e raw)
    \<longrightarrow> report_field (normalize rt e raw) ''qualityScore'' = property rd ''qualityScore'')
   \<and> (JSON_parse rt (clean_response raw') = Some rd' \<and> property rd' ''qualityScore'' = Undefined
      \<and> \<not> isl (normalize rt e raw')
    \<longrightarrow> report_field (normalize rt e raw') ''qualityScore'' = JNum (3 / 4))
   \<and> (JSON_parse rt (clean_response raw'') = None
    \<longrightarrow> report_field (normalize rt e raw'') ''qualityScore'' = JNum (7 / 10))"
proof (intro conjI impI)
  assume "JSON_parse rt (clean_response raw) = Some rd \<and> truthy (property rd ''qualityScore'')
      \<and> \<not> isl (normalize rt e raw)"
  then show "report_field (normalize rt e raw) ''qualityScore'' = property rd ''qualityScore''"
    using normalize_parsed [of rt raw rd e] by (simp add: or_else_def)
next
  assume "JSON_parse rt (clean_response raw') = Some rd' \<and> property rd' ''qualityScore'' = Undefined
      \<and> \<not> isl (normalize rt e raw')"
  then show "report_field (normalize rt e raw') ''qualityScore'' = JNum (3 / 4)"
    using normalize_parsed [of rt raw' rd' e] by (simp add: or_else_def)
next
  assume "JSON_parse rt (clean_response raw'') = None"
  then show "report_field (normalize rt e raw'') ''qualityScore'' = JNum (7 / 10)"
    by (simp add: report_field_def normalize_def fallback_data_def build_report_def js_map_def
          or_else_def bnd_def Let_def)
qed

theorem quality_score_defaulting_witness:
  \<open>(JSON_parse sample_runtime (clean_response ''{"qualityScore":0.9}'')
        = Some (JObj [(''qualityScore'', JNum (9 / 10))])
      \<and> truthy (property (JObj [(''qualityScore'', JNum (9 / 10))]) ''qualityScore'')
      \<and> \<not> isl (normalize sample_runtime sample_env ''{"qualityScore":0.9}''))
   \<and> report_field (normalize sample_runtime sample_env ''{"qualityScore":0.9}'') ''qualityScore''
       = JNum (9 / 10)
   \<and> (JSON_parse sample_runtime (clean_response ''{}'') = Some (JObj [])
      \<and> property (JObj []) ''qualityScore'' = Undefined
      \<and> \<not> isl (normalize sample_runtime sample_env ''{}''))
   \<and> report_field (normalize sample_runtime sample_env ''{}'') ''qualityScore'' = JNum (3 / 4)
   \<and> JSON_parse sample_runtime (clean_response ''Sure! '') = None
   \<and> report_field (normalize sample_runtime sample_env ''Sure! '') ''qualityScore'' = JNum (7 / 10)\<close>
proof -
  have a: \<open>JSON_parse sample_runtime (clean_response ''{"qualityScore":0.9}'')
        = Some (JObj [(''qualityScore'', JNum (9 / 10))])
      \<and> truthy (property (JObj [(''qualityScore'', JNum (9 / 10))]) ''qualityScore'')
      \<and> \<not> isl (normalize sample_runtime sample_env ''{"qualityScore":0.9}'')\<close>
    by code_simp
  have b: \<open>JSON_parse sample_runtime (clean_response ''{}'') = Some (JObj [])
      \<and> property (JObj []) ''qualityScore'' = Undefined
      \<and> \<not> isl (normalize sample_runtime sample_env ''{}'')\<close>
    by code_simp
  have c: "JSON_parse sample_runtime (clean_response ''Sure! '') = None"
    by (simp add: clean_sure sample_runtime_def)
  from quality_score_defaulting
         [of sample_runtime \<open>''{"qualityScore":0.9}''\<close> "JObj [(''qualityScore'', JNum (9 / 10))]"
             sample_env "''{}''" "JObj []" "''Sure! ''"]
       a b c
  show ?thesis by simp
qed

section \<open>Properties of the session hook\<close>

lemma clearProgress_fields [simp]:
  "state (clearProgress h) = state h"
  "invocations (clearProgress h) = invocations h"
  "currentQueryId (clearProgress h) = currentQueryId h"
  by (simp_all add: clearProgress_def split: option.splits)

lemma setState_fields [simp]:
  "state (setState upd h) = upd (state h)"
  "invocations (setState upd h) = invocations h"
  "intervals (setState upd h) = intervals h"
  "progressIntervalRef (setState upd h) = progressIntervalRef h"
  by (simp_all add: setState_def)

lemma set_invocation_fields [simp]:
  "state (set_invocation c upd h) = state h"
  "invocations (set_invocation c upd h) = (invocations h)[c := upd (invocations h ! c)]"
  "intervals (set_invocation c upd h) = intervals h"
  "progressIntervalRef (set_invocation c upd h) = progressIntervalRef h"
  by (simp_all add: set_invocation_def)

lemma complete_fields [simp]:
  "invocations (complete f report h) = invocations h"
  "intervals (complete f report h) = intervals h"
  "progressIntervalRef (complete f report h) = progressIntervalRef h"
  "state (complete f report h) = (state h)\<lparr>phase := Completed, currentReport := Some report,
        conversationHistory := conversationHistory (state h) @
          [\<lparr>ce_id = gen_id f, ce_question = currentQuestion (state h), ce_report = report\<rparr>],
        sourcesAnalyzed := length (sources report)\<rparr>"
  by (simp_all add: complete_def)

lemma fail_with_fields [simp]:
  "invocations (fail_with m h) = invocations h"
  "intervals (fail_with m h) = intervals h"
  "progressIntervalRef (fail_with m h) = progressIntervalRef h"
  "state (fail_with m h) = (state h)\<lparr>phase := Error_phase, error := Some m\<rparr>"
  by (simp_all add: fail_with_def)

lemma has_query_awaiting [simp]: "has_query (i\<lparr>awaiting := s\<rparr>) = has_query i"
  by (simp add: has_query_def)

lemma showProgress_phase [simp]: "phase (state (showProgress f c h)) = phase (state h)"
  by (simp add: showProgress_def addProgressUpdate_def Let_def)

lemma showProgress_invocations_length [simp]:
  "length (invocations (showProgress f c h)) = length (invocations h)"
  by (simp add: showProgress_def addProgressUpdate_def Let_def)

lemma launch_phase [simp]: "phase (state (launch f c h)) = phase (state h)"
  by (simp add: launch_def Let_def)

lemma startResearch_phase [simp]: "phase (state (startResearch fq fp text u h)) = Researching"
  by (simp add: startResearch_def begin_research_def Let_def)

lemma catch_error_phase:
  "phase (state (catch_error rt c err h)) = phase (state h) \<or> phase (state (catch_error rt c err h)) = Error_phase"
  by (simp add: catch_error_def Let_def)

lemma read_unconfigured:
  "read_response rt f q (json_response 503
       (JObj [(''error'', JStr ''API not configured''),
              (''message'', JStr ''Please add GEMINI_API_KEY to your .env.local file'')]))
   = Inl (Error ''Please add GEMINI_API_KEY to your .env.local file'')"
  by (simp add: read_response_def json_response_def ok_def or_else_def to_string_def)

lemma stale_prefix:
  "0 < length (invocations (run sample_runtime (take 3 stale_trace) initial_hook))
   \<and> awaiting (invocations (run sample_runtime (take 3 stale_trace) initial_hook) ! 0)
       = AwaitJson topic_A_response
   \<and> questionText (invocations (run sample_runtime (take 3 stale_trace) initial_hook) ! 0) = ''Topic A''"
  by code_simp

lemma read_topic_A:
  "read_response sample_runtime sample_fresh ''Topic A'' topic_A_response = Inr topic_A_report"
  by code_simp

lemma stale_prefix2:
  "0 < length (invocations (run sample_runtime (take 2 stale_trace) initial_hook))
   \<and> awaiting (invocations (run sample_runtime (take 2 stale_trace) initial_hook) ! 0) = AwaitFetch
   \<and> questionText (invocations (run sample_runtime (take 2 stale_trace) initial_hook) ! 0) = ''Topic A''"
  by code_simp

subsection \<open>Late results\<close>

text \<open>
  C1, as stated: a result of the call for A never changes the session once B is active.
  In the run \<open>stale_trace\<close> the second invocation (for Topic B) still awaits its
  response when the response for Topic A is applied: the phase goes from
  \<open>researching\<close> to \<open>completed\<close>, the report for A becomes the current report next to
  the question B, and the history gets an entry. In the run
  \<open>stale_after_reset_trace\<close> the response for A arrives after \<open>reset()\<close> and moves
  the initial session to \<open>completed\<close>.
\<close>

theorem stale_response_counterexample:
  "stage_of (run sample_runtime stale_trace initial_hook) 1 = AwaitFetch
   \<and> map_option q_text (currentQuestion (state (run sample_runtime stale_trace initial_hook)))
       = Some ''Topic B''
   \<and> phase (state (run sample_runtime (take 3 stale_trace) initial_hook)) = Researching
   \<and> currentReport (state (run sample_runtime (take 3 stale_trace) initial_hook)) = None
   \<and> phase (state (run sample_runtime stale_trace initial_hook)) = Completed
   \<and> currentReport (state (run sample_runtime stale_trace initial_hook)) = Some topic_A_report
   \<and> length (conversationHistory (state (run sample_runtime stale_trace initial_hook))) = 1
   \<and> state (run sample_runtime (take 3 stale_after_reset_trace) initial_hook) = initialState
   \<and> phase (state (run sample_runtime stale_after_reset_trace initial_hook)) = Completed
   \<and> currentReport (state (run sample_runtime stale_after_reset_trace initial_hook))
       = Some topic_A_report"
  by code_simp

text \<open>
  C1, amended. The settlement of the call of any invocation (the request fails, or its
  response is read) is applied to the session as it is at that moment, whether or not
  a later \<open>startResearch\<close> or a \<open>reset()\<close> came in between: a report sets the phase to \<open>completed\<close>, becomes the current report,
  is appended to the history with the current question, and sets the count of sources;
  an error sets the phase to \<open>error\<close> and the error message. Nothing else of the
  session (the current question, the progress updates) is changed by it.
\<close>

theorem late_result_applied:
  assumes c: "c < length (invocations h)"
    and a: "awaiting (invocations h ! c) = AwaitFetch"
  shows "state (run rt [FetchDone c result, JsonDone c fr fe, SaveDone c fe, FailedDone c] h) =
     (case bnd result (read_response rt fr (questionText (invocations h ! c))) of
        Inr report \<Rightarrow>
          (state h)\<lparr>phase := Completed, currentReport := Some report,
            conversationHistory := conversationHistory (state h) @
              [\<lparr>ce_id = gen_id fe, ce_question = currentQuestion (state h), ce_report = report\<rparr>],
            sourcesAnalyzed := length (sources report)\<rparr>
      | Inl err \<Rightarrow> (state h)\<lparr>phase := Error_phase, error := Some (error_message rt err)\<rparr>)"
proof (cases result)
  case (Inl err)
  with c a show ?thesis
    by (cases "has_query (invocations h ! c)")
       (simp_all add: run_def stage_of_def catch_error_def Let_def bnd_def)
next
  case (Inr response)
  with c a show ?thesis
    by (cases "has_query (invocations h ! c)";
        cases "read_response rt fr (questionText (invocations h ! c)) response")
       (simp_all add: run_def stage_of_def catch_error_def Let_def bnd_def)
qed

theorem late_result_applied_witness:
  "0 < length (invocations (run sample_runtime (take 2 stale_trace) initial_hook))
   \<and> awaiting (invocations (run sample_runtime (take 2 stale_trace) initial_hook) ! 0) = AwaitFetch
   \<and> stage_of (run sample_runtime (take 2 stale_trace) initial_hook) 1 = AwaitFetch
   \<and> currentReport (state (run sample_runtime
         [FetchDone 0 (Inr topic_A_response), JsonDone 0 sample_fresh sample_fresh,
          SaveDone 0 sample_fresh, FailedDone 0]
         (run sample_runtime (take 2 stale_trace) initial_hook))) = Some topic_A_report"
proof -
  have s: "stage_of (run sample_runtime (take 2 stale_trace) initial_hook) 1 = AwaitFetch"
    by code_simp
  have b: "bnd (Inr topic_A_response)
             (read_response sample_runtime sample_fresh
                (questionText (invocations (run sample_runtime (take 2 stale_trace) initial_hook) ! 0)))
           = Inr topic_A_report"
    using stale_prefix2 read_topic_A by (simp add: bnd_def)
  have b': "bnd (Inr topic_A_response) (read_response sample_runtime sample_fresh ''Topic A'')
           = Inr topic_A_report"
    using read_topic_A by (simp add: bnd_def)
  from late_result_applied
         [of 0 "run sample_runtime (take 2 stale_trace) initial_hook"
             sample_runtime "Inr topic_A_response" sample_fresh sample_fresh]
       stale_prefix2 s
  show ?thesis by (simp add: b b')
qed

subsection \<open>Phases\<close>

text \<open>
  C6, as stated: the phase only moves along the edges of the state machine. \<open>setError\<close>
  in the initial state moves it from \<open>idle\<close> to \<open>error\<close>.
\<close>

theorem idle_to_error_counterexample:
  "phase (state initial_hook) = Idle
   \<and> phase (state (step sample_runtime (SetError ''Network unavailable'') initial_hook)) = Error_phase
   \<and> \<not> spec_phase_edge (SetError ''Network unavailable'') Idle Error_phase"
  by code_simp

lemma phase_step_follows_edge:
  assumes "applies_result ev \<longrightarrow> phase (state h) = Researching"
  shows "phase (state (step rt ev h)) = phase (state h)
         \<or> spec_phase_edge ev (phase (state h)) (phase (state (step rt ev h)))"
proof (cases ev)
  case (StartResearch q u fq fp)
  then show ?thesis by (cases "phase (state h)") (simp_all add: spec_phase_edge_def)
next
  case (SubmitFollowUp q u fq fp)
  then show ?thesis by (cases "phase (state h)") (simp_all add: spec_phase_edge_def)
next
  case Reset
  then show ?thesis by (simp add: spec_phase_edge_def reset_def initialState_def)
next
  case (SetError err)
  with assms show ?thesis by (simp add: spec_phase_edge_def setError_def)
next
  case (Tick c f)
  then show ?thesis by simp
next
  case (DbDone c qid depth f)
  then show ?thesis by (simp split: stage.splits option.splits)
next
  case (FetchDone c result)
  show ?thesis
  proof (cases result)
    case (Inl err)
    with FetchDone assms have "phase (state h) = Researching" by simp
    with FetchDone Inl show ?thesis
      using catch_error_phase [of rt c err h]
      by (auto simp: spec_phase_edge_def split: stage.splits)
  next
    case (Inr response)
    with FetchDone show ?thesis by (simp split: stage.splits)
  qed
next
  case (JsonDone c fr fe)
  with assms have r: "phase (state h) = Researching" by simp
  show ?thesis
  proof (cases "stage_of h c")
    case (AwaitJson response)
    with JsonDone r show ?thesis
      using catch_error_phase [of rt c _ h]
      by (cases "read_response rt fr (questionText (invocations h ! c)) response")
         (auto simp: spec_phase_edge_def)
  qed (use JsonDone in simp_all)
next
  case (SaveDone c fe)
  with assms show ?thesis by (simp add: spec_phase_edge_def split: stage.splits)
next
  case (FailedDone c)
  with assms show ?thesis by (simp add: spec_phase_edge_def split: stage.splits)
qed

lemma settlement_phase:
  assumes c: "c < length (invocations h)"
    and a: "awaiting (invocations h ! c) = AwaitFetch"
  shows "phase (state (run rt [FetchDone c result, JsonDone c fr fe, SaveDone c fe, FailedDone c] h)) =
     (case bnd result (read_response rt fr (questionText (invocations h ! c))) of
        Inr report \<Rightarrow> Completed
      | Inl err \<Rightarrow> Error_phase)"
proof (cases result)
  case (Inl err)
  with c a show ?thesis
    by (cases "has_query (invocations h ! c)")
       (simp_all add: run_def stage_of_def catch_error_def Let_def bnd_def)
next
  case (Inr response)
  with c a show ?thesis
    by (cases "has_query (invocations h ! c)";
        cases "read_response rt fr (questionText (invocations h ! c)) response")
       (simp_all add: run_def stage_of_def catch_error_def Let_def bnd_def)
qed

lemma started:
  "0 < length (invocations (run sample_runtime (take 1 stale_trace) initial_hook))
   \<and> awaiting (invocations (run sample_runtime (take 1 stale_trace) initial_hook) ! 0) = AwaitFetch
   \<and> questionText (invocations (run sample_runtime (take 1 stale_trace) initial_hook) ! 0) = ''Topic A''
   \<and> phase (state (run sample_runtime (take 1 stale_trace) initial_hook)) = Researching"
  by code_simp

text \<open>
  C6, amended. Every operation sets the phase without looking at it: \<open>startResearch\<close>
  and \<open>submitFollowUp\<close> set \<open>researching\<close>, \<open>reset\<close> sets \<open>idle\<close>, \<open>setError\<close> sets
  \<open>error\<close>, and the settlement of the provider call of an invocation sets \<open>completed\<close>
  when a report is built and \<open>error\<close> otherwise. So whenever the results of the
  pipeline and \<open>setError\<close> are applied in phase \<open>researching\<close>, every change of the
  phase follows an edge of the state machine.
\<close>

theorem phase_set_by_operations:
  "phase (state (step rt (StartResearch q u fq fp) h)) = Researching
   \<and> phase (state (step rt (SubmitFollowUp q u fq fp) h)) = Researching
   \<and> phase (state (step rt Reset h)) = Idle
   \<and> phase (state (step rt (SetError err) h)) = Error_phase
   \<and> (c < length (invocations h) \<and> awaiting (invocations h ! c) = AwaitFetch \<longrightarrow>
        phase (state (run rt [FetchDone c result, JsonDone c fr fe, SaveDone c fe, FailedDone c] h)) =
          (case bnd result (read_response rt fr (questionText (invocations h ! c))) of
             Inr report \<Rightarrow> Completed
           | Inl e \<Rightarrow> Error_phase))
   \<and> ((applies_result ev \<longrightarrow> phase (state h') = Researching) \<longrightarrow>
        phase (state (step rt ev h')) = phase (state h')
        \<or> spec_phase_edge ev (phase (state h')) (phase (state (step rt ev h'))))"
proof (intro conjI impI)
  show "phase (state (step rt (StartResearch q u fq fp) h)) = Researching" by simp
  show "phase (state (step rt (SubmitFollowUp q u fq fp) h)) = Researching" by simp
  show "phase (state (step rt Reset h)) = Idle" by (simp add: reset_def initialState_def)
  show "phase (state (step rt (SetError err) h)) = Error_phase" by (simp add: setError_def)
next
  assume "c < length (invocations h) \<and> awaiting (invocations h ! c) = AwaitFetch"
  then show "phase (state (run rt [FetchDone c result, JsonDone c fr fe, SaveDone c fe, FailedDone c] h)) =
          (case bnd result (read_response rt fr (questionText (invocations h ! c))) of
             Inr report \<Rightarrow> Completed
           | Inl e \<Rightarrow> Error_phase)"
    by (simp add: settlement_phase)
next
  assume "applies_result ev \<longrightarrow> phase (state h') = Researching"
  then show "phase (state (step rt ev h')) = phase (state h')
        \<or> spec_phase_edge ev (phase (state h')) (phase (state (step rt ev h')))"
    by (rule phase_step_follows_edge)
qed

theorem phase_set_by_operations_witness:
  "phase (state (run sample_runtime (take 1 stale_trace) initial_hook)) = Researching
   \<and> phase (state (step sample_runtime (StartResearch ''Topic B'' False sample_fresh sample_fresh)
                (run sample_runtime (take 1 stale_trace) initial_hook))) = Researching
   \<and> phase (state (step sample_runtime Reset
                (run sample_runtime (take 1 stale_trace) initial_hook))) = Idle
   \<and> phase (state (step sample_runtime (SetError ''Network unavailable'')
                (run sample_runtime (take 1 stale_trace) initial_hook))) = Error_phase
   \<and> 0 < length (invocations (run sample_runtime (take 1 stale_trace) initial_hook))
   \<and> awaiting (invocations (run sample_runtime (take 1 stale_trace) initial_hook) ! 0) = AwaitFetch
   \<and> phase (state (run sample_runtime
         [FetchDone 0 (Inr topic_A_response), JsonDone 0 sample_fresh sample_fresh,
          SaveDone 0 sample_fresh, FailedDone 0]
         (run sample_runtime (take 1 stale_trace) initial_hook))) = Completed
   \<and> phase (state (run sample_runtime
         [FetchDone 0 (Inl TypeError), JsonDone 0 sample_fresh sample_fresh,
          SaveDone 0 sample_fresh, FailedDone 0]
         (run sample_runtime (take 1 stale_trace) initial_hook))) = Error_phase
   \<and> applies_result (SetError ''Network unavailable'')
   \<and> spec_phase_edge (SetError ''Network unavailable'') Researching Error_phase"
proof -
  let ?h = "run sample_runtime (take 1 stale_trace) initial_hook"
  have c: "0 < length (invocations ?h)" and a: "awaiting (invocations ?h ! 0) = AwaitFetch"
    and t: "questionText (invocations ?h ! 0) = ''Topic A''" and p: "phase (state ?h) = Researching"
    using started by blast+
  have ca: "0 < length (invocations ?h) \<and> awaiting (invocations ?h ! 0) = AwaitFetch"
    using c a by blast
  have b: "bnd (Inr topic_A_response) (read_response sample_runtime sample_fresh (questionText (invocations ?h ! 0)))
           = Inr topic_A_report"
    using read_topic_A by (simp only: t bnd_def sum.case)
  have b': "bnd (Inl TypeError) (read_response sample_runtime sample_fresh (questionText (invocations ?h ! 0)))
           = Inl TypeError"
    by (simp only: bnd_def sum.case)
  have ar: "applies_result (SetError ''Network unavailable'') \<longrightarrow> phase (state ?h) = Researching"
    using p by blast
  note ok = phase_set_by_operations
      [of sample_runtime "''Topic B''" False sample_fresh sample_fresh ?h "''Network unavailable''"
          0 "Inr topic_A_response" sample_fresh sample_fresh "SetError ''Network unavailable''" ?h]
  note failed = phase_set_by_operations
      [of sample_runtime "''Topic B''" False sample_fresh sample_fresh ?h "''Network unavailable''"
          0 "Inl TypeError" sample_fresh sample_fresh "SetError ''Network unavailable''" ?h]
  from ok have s1: "phase (state (step sample_runtime (StartResearch ''Topic B'' False sample_fresh sample_fresh) ?h)) = Researching"
    and s3: "phase (state (step sample_runtime Reset ?h)) = Idle"
    and s4: "phase (state (step sample_runtime (SetError ''Network unavailable'') ?h)) = Error_phase"
    by blast+
  from ok ca have "phase (state (run sample_runtime
         [FetchDone 0 (Inr topic_A_response), JsonDone 0 sample_fresh sample_fresh,
          SaveDone 0 sample_fresh, FailedDone 0] ?h)) =
       (case bnd (Inr topic_A_response) (read_response sample_runtime sample_fresh (questionText (invocations ?h ! 0))) of
             Inr report \<Rightarrow> Completed | Inl e \<Rightarrow> Error_phase)" by blast
  then have s5: "phase (state (run sample_runtime
         [FetchDone 0 (Inr topic_A_response), JsonDone 0 sample_fresh sample_fresh,
          SaveDone 0 sample_fresh, FailedDone 0] ?h)) = Completed"
    by (simp only: b sum.case)
  from failed ca have "phase (state (run sample_runtime
         [FetchDone 0 (Inl TypeError), JsonDone 0 sample_fresh sample_fresh,
          SaveDone 0 sample_fresh, FailedDone 0] ?h)) =
       (case bnd (Inl TypeError) (read_response sample_runtime sample_fresh (questionText (invocations ?h ! 0))) of
             Inr report \<Rightarrow> Completed | Inl e \<Rightarrow> Error_phase)" by blast
  then have s6: "phase (state (run sample_runtime
         [FetchDone 0 (Inl TypeError), JsonDone 0 sample_fresh sample_fresh,
          SaveDone 0 sample_fresh, FailedDone 0] ?h)) = Error_phase"
    by (simp only: b' sum.case)
  from ok ar have "phase (state (step sample_runtime (SetError ''Network unavailable'') ?h)) = phase (state ?h)
      \<or> spec_phase_edge (SetError ''Network unavailable'') (phase (state ?h))
           (phase (state (step sample_runtime (SetError ''Network unavailable'') ?h)))"
    by blast
  with s4 p have s7: "spec_phase_edge (SetError ''Network unavailable'') Researching Error_phase"
    by simp
  have s8: "applies_result (SetError ''Network unavailable'')" by simp
  from p s1 s3 s4 c a s5 s6 s8 s7 show ?thesis by blast
qed

subsection \<open>Progress after \<open>reset\<close>\<close>

lemma run_Cons: "run rt (ev # evs) h = run rt evs (step rt ev h)"
  by (simp add: run_def)

lemma run_Nil: "run rt [] h = h"
  by (simp add: run_def)

lemma run_append: "run rt (evs @ evs') h = run rt evs' (run rt evs h)"
  by (simp add: run_def)

lemma launched_set_invocation:
  assumes "launched h" and "\<And>i. awaiting i \<noteq> AwaitDb \<Longrightarrow> awaiting (upd i) \<noteq> AwaitDb"
  shows "launched (set_invocation c upd h)"
proof (cases "c < length (invocations h)")
  case True
  with assms show ?thesis by (auto simp: launched_def nth_list_update)
next
  case False
  with assms show ?thesis by (simp add: launched_def)
qed

lemma clearProgress_tidy: "tidy h \<Longrightarrow> intervals (clearProgress h) = {} \<and> progressIntervalRef (clearProgress h) = None"
  by (auto simp: tidy_def clearProgress_def split: option.splits)

lemma launched_unchanged [simp]:
  "launched (clearProgress h) = launched h"
  "launched (setState upd h) = launched h"
  "launched (complete fe report h) = launched h"
  "launched (fail_with m h) = launched h"
  "launched (addProgressUpdate update h) = launched h"
  by (simp_all add: launched_def complete_def fail_with_def addProgressUpdate_def)

lemma showProgress_fields [simp]:
  "intervals (showProgress f c h) = intervals h"
  "progressIntervalRef (showProgress f c h) = progressIntervalRef h"
  by (simp_all add: showProgress_def addProgressUpdate_def Let_def)

lemma showProgress_launched: "launched h \<Longrightarrow> launched (showProgress f c h)"
  by (auto simp: showProgress_def Let_def
           intro!: launched_set_invocation)

lemma catch_error_tidy: "tidy h \<Longrightarrow> tidy (catch_error rt c err h)"
  using clearProgress_tidy [of h]
  by (auto simp: catch_error_def Let_def tidy_def
           intro!: launched_set_invocation)

lemma tidy_startResearch: "tidy h \<Longrightarrow> tidy (startResearch fq fp q False h)"
  using clearProgress_tidy [of h]
  apply (simp add: startResearch_def begin_research_def launch_def Let_def tidy_def)
  apply (auto simp: launched_def showProgress_def addProgressUpdate_def Let_def nth_list_update nth_append)
  done

lemma tidy_step: "tidy h \<Longrightarrow> signed_out ev \<Longrightarrow> tidy (step rt ev h)"
proof (cases ev)
  case (StartResearch q u fq fp)
  assume "tidy h" "signed_out ev"
  with StartResearch show ?thesis by (simp add: tidy_startResearch)
next
  case (SubmitFollowUp q u fq fp)
  assume "tidy h" "signed_out ev"
  with SubmitFollowUp show ?thesis by (simp add: tidy_startResearch)
next
  case Reset
  assume "tidy h"
  with Reset clearProgress_tidy [of h] show ?thesis
    by (simp add: reset_def tidy_def launched_def)
next
  case (SetError err)
  assume "tidy h"
  with SetError clearProgress_tidy [of h] show ?thesis
    by (simp add: setError_def tidy_def launched_def fail_with_def setState_def)
next
  case (Tick c f)
  assume "tidy h"
  with Tick show ?thesis by (simp add: tidy_def showProgress_launched)
next
  case (DbDone c qid depth f)
  assume "tidy h"
  with DbDone show ?thesis
    by (auto simp: tidy_def launched_def stage_of_def split: stage.splits if_splits)
next
  case (FetchDone c result)
  assume t: "tidy h"
  show ?thesis
  proof (cases result)
    case (Inl err)
    with FetchDone t show ?thesis by (simp add: catch_error_tidy split: stage.splits)
  next
    case (Inr response)
    with FetchDone t clearProgress_tidy [of h] show ?thesis
      by (auto simp: tidy_def split: stage.splits intro!: launched_set_invocation)
  qed
next
  case (JsonDone c fr fe)
  assume t: "tidy h"
  with JsonDone show ?thesis
    using catch_error_tidy [of h rt c]
    by (auto simp: tidy_def
             split: stage.splits sum.splits intro!: launched_set_invocation)
next
  case (SaveDone c fe)
  assume t: "tidy h"
  with SaveDone show ?thesis
    by (auto simp: tidy_def
             split: stage.splits intro!: launched_set_invocation)
next
  case (FailedDone c)
  assume t: "tidy h"
  with FailedDone show ?thesis
    by (auto simp: tidy_def
             split: stage.splits intro!: launched_set_invocation)
qed

lemma tidy_run: "tidy h \<Longrightarrow> \<forall>ev \<in> set evs. signed_out ev \<Longrightarrow> tidy (run rt evs h)"
  by (induction evs arbitrary: h) (simp_all add: tidy_step run_Nil run_Cons)

lemma tidy_initial: "tidy initial_hook"
  by (simp add: tidy_def launched_def initial_hook_def)

lemma silent_reset: "tidy h \<Longrightarrow> silent (reset h)"
  using clearProgress_tidy [of h]
  by (simp add: silent_def reset_def tidy_def launched_def initialState_def)

lemma clearProgress_no_intervals: "intervals h = {} \<Longrightarrow> intervals (clearProgress h) = {}"
  by (simp add: clearProgress_def split: option.splits)

lemma silent_catch_error: "silent h \<Longrightarrow> silent (catch_error rt c err h)"
  by (auto simp: silent_def catch_error_def Let_def clearProgress_no_intervals
           intro!: launched_set_invocation)

lemma silent_step: "silent h \<Longrightarrow> \<not> is_start ev \<Longrightarrow> silent (step rt ev h)"
proof (cases ev)
  case Reset
  assume "silent h"
  with Reset show ?thesis
    by (simp add: silent_def reset_def clearProgress_no_intervals launched_def initialState_def)
next
  case (SetError err)
  assume "silent h"
  with SetError show ?thesis
    by (simp add: silent_def setError_def clearProgress_no_intervals)
next
  case (Tick c f)
  assume "silent h"
  with Tick show ?thesis by (simp add: silent_def)
next
  case (DbDone c qid depth f)
  assume "silent h"
  with DbDone show ?thesis
    by (auto simp: silent_def launched_def stage_of_def split: stage.splits if_splits)
next
  case (FetchDone c result)
  assume s: "silent h"
  with FetchDone silent_catch_error [of h rt c] show ?thesis
    by (auto simp: silent_def clearProgress_no_intervals
             split: stage.splits sum.splits intro!: launched_set_invocation)
next
  case (JsonDone c fr fe)
  assume s: "silent h"
  with JsonDone silent_catch_error [of h rt c] show ?thesis
    by (auto simp: silent_def split: stage.splits sum.splits intro!: launched_set_invocation)
next
  case (SaveDone c fe)
  assume s: "silent h"
  with SaveDone show ?thesis
    by (auto simp: silent_def split: stage.splits intro!: launched_set_invocation)
next
  case (FailedDone c)
  assume s: "silent h"
  with FailedDone show ?thesis
    by (auto simp: silent_def split: stage.splits intro!: launched_set_invocation)
qed simp_all

lemma silent_run: "silent h \<Longrightarrow> \<forall>ev \<in> set evs. \<not> is_start ev \<Longrightarrow> silent (run rt evs h)"
  by (induction evs arbitrary: h) (simp_all add: silent_step run_Nil run_Cons)

text \<open>
  When nobody is signed in, \<open>reset\<close> is complete: whatever happened before, no progress
  update is appended after it until the next \<open>startResearch\<close>.
\<close>

lemma reset_silences_launched_scheduler:
  assumes "\<forall>ev \<in> set before. signed_out ev" and "\<forall>ev \<in> set after. \<not> is_start ev"
  shows "progressUpdates (state (run rt (before @ Reset # after) initial_hook)) = []"
proof -
  have "tidy (run rt before initial_hook)"
    using tidy_initial assms(1) by (rule tidy_run)
  then have "silent (step rt Reset (run rt before initial_hook))"
    by (simp add: silent_reset)
  then have "silent (run rt after (step rt Reset (run rt before initial_hook)))"
    using assms(2) by (rule silent_run)
  then show ?thesis by (simp add: run_append run_Cons silent_def)
qed

text \<open>
  C7. No progress update may be appended after \<open>reset()\<close> returns. With a signed-in
  user, \<open>startResearch\<close> awaits the database before it starts its scheduler; when
  \<open>reset()\<close> is called during that wait there is no interval to clear yet. The
  invocation then resumes, appends its first update to the session that was reset and
  starts an interval that nothing clears: after \<open>reset\<close> the list of updates is empty,
  after the resumption it has one entry, after the next tick two, in phase \<open>idle\<close>.
\<close>

theorem reset_then_progress:
  "progressUpdates (state (run sample_runtime (take 2 late_launch_trace) initial_hook)) = []
   \<and> phase (state (run sample_runtime (take 2 late_launch_trace) initial_hook)) = Idle
   \<and> length (progressUpdates (state (run sample_runtime (take 3 late_launch_trace) initial_hook))) = 1
   \<and> length (progressUpdates (state (run sample_runtime late_launch_trace initial_hook))) = 2
   \<and> phase (state (run sample_runtime late_launch_trace initial_hook)) = Idle"
  by code_simp

theorem reset_then_progress_witness:
  "progressUpdates (state (run sample_runtime late_launch_trace initial_hook)) \<noteq> []"
  using reset_then_progress by auto

subsection \<open>Validation of the question\<close>




subsection \<open>Missing credential\<close>

text \<open>
  C8. Without an API key, the route answers the request of \<open>startResearch\<close> (for a
  question that is not empty) with status 503 and calls the provider not at all; the
  hook then ends the invocation in phase \<open>error\<close> with the message that asks for
  \<open>GEMINI_API_KEY\<close>.
\<close>

theorem provider_not_configured:
  assumes key: "GEMINI_API_KEY e = None \<or> GEMINI_API_KEY e = Some []"
    and c: "c < length (invocations h)"
    and a: "awaiting (invocations h ! c) = AwaitFetch"
    and q: "questionText (invocations h ! c) \<noteq> []"
    and r: "(response, calls) = POST rt e provider
              (Inr (request_body (questionText (invocations h ! c)) (searchDepth (invocations h ! c))))"
  shows "calls = []
       \<and> phase (state (run rt' [FetchDone c (Inr response), JsonDone c fr fe, FailedDone c] h))
           = Error_phase
       \<and> error (state (run rt' [FetchDone c (Inr response), JsonDone c fr fe, FailedDone c] h))
           = Some ''Please add GEMINI_API_KEY to your .env.local file''"
proof -
  have "POST rt e provider
          (Inr (request_body (questionText (invocations h ! c)) (searchDepth (invocations h ! c)))) =
     (json_response 503
       (JObj [(''error'', JStr ''API not configured''),
              (''message'', JStr ''Please add GEMINI_API_KEY to your .env.local file'')]), [])"
    using key q by (auto simp: POST_def request_body_def Let_def)
  with r have p: "response = json_response 503
       (JObj [(''error'', JStr ''API not configured''),
              (''message'', JStr ''Please add GEMINI_API_KEY to your .env.local file'')])"
    and n: "calls = []" by simp_all
  show ?thesis
    using c a n
    by (cases "has_query (invocations h ! c)")
       (simp_all add: p run_def stage_of_def read_unconfigured catch_error_def Let_def
          error_message_def)
qed

theorem provider_not_configured_witness:
  "(GEMINI_API_KEY unconfigured_env = None \<or> GEMINI_API_KEY unconfigured_env = Some [])
   \<and> 0 < length (invocations (run sample_runtime (take 1 stale_trace) initial_hook))
   \<and> awaiting (invocations (run sample_runtime (take 1 stale_trace) initial_hook) ! 0) = AwaitFetch
   \<and> questionText (invocations (run sample_runtime (take 1 stale_trace) initial_hook) ! 0) = ''Topic A''
   \<and> searchDepth (invocations (run sample_runtime (take 1 stale_trace) initial_hook) ! 0) = ''standard''
   \<and> (unconfigured_response, []) = POST sample_runtime unconfigured_env (answer two_sources_text)
            (Inr (request_body ''Topic A'' ''standard''))
   \<and> phase (state (run sample_runtime
        [FetchDone 0 (Inr unconfigured_response), JsonDone 0 sample_fresh sample_fresh, FailedDone 0]
        (run sample_runtime (take 1 stale_trace) initial_hook))) = Error_phase
   \<and> error (state (run sample_runtime
        [FetchDone 0 (Inr unconfigured_response), JsonDone 0 sample_fresh sample_fresh, FailedDone 0]
        (run sample_runtime (take 1 stale_trace) initial_hook)))
       = Some ''Please add GEMINI_API_KEY to your .env.local file''"
proof -
  have k: "GEMINI_API_KEY unconfigured_env = None \<or> GEMINI_API_KEY unconfigured_env = Some []"
    by (simp add: unconfigured_env_def)
  have c: "0 < length (invocations (run sample_runtime (take 1 stale_trace) initial_hook))"
    by code_simp
  have a: "awaiting (invocations (run sample_runtime (take 1 stale_trace) initial_hook) ! 0) = AwaitFetch"
    by code_simp
  have t: "questionText (invocations (run sample_runtime (take 1 stale_trace) initial_hook) ! 0) = ''Topic A''"
    by code_simp
  have d: "searchDepth (invocations (run sample_runtime (take 1 stale_trace) initial_hook) ! 0) = ''standard''"
    by code_simp
  have q: "questionText (invocations (run sample_runtime (take 1 stale_trace) initial_hook) ! 0) \<noteq> []"
    by code_simp
  have r: "(unconfigured_response, []) = POST sample_runtime unconfigured_env (answer two_sources_text)
            (Inr (request_body ''Topic A'' ''standard''))"
    by code_simp
  have r': "(unconfigured_response, []) = POST sample_runtime unconfigured_env (answer two_sources_text)
            (Inr (request_body
               (questionText (invocations (run sample_runtime (take 1 stale_trace) initial_hook) ! 0))
               (searchDepth (invocations (run sample_runtime (take 1 stale_trace) initial_hook) ! 0))))"
    using r by (simp only: t d)
  from provider_not_configured [OF k c a q r', of sample_runtime sample_fresh sample_fresh]
       k c a t d r
  show ?thesis by blast
qed

subsection \<open>The count of sources\<close>

text \<open>
  C10. When an invocation of \<open>startResearch\<close> completes with a report, the session's
  \<open>sourcesAnalyzed\<close> is the number of sources of that report, whatever the progress
  updates had counted; the report is the current report and the phase is \<open>completed\<close>.
\<close>

theorem completion_sets_sources_analyzed:
  assumes c: "c < length (invocations h)"
    and a: "awaiting (invocations h ! c) = AwaitJson response"
    and r: "read_response rt fr (questionText (invocations h ! c)) response = Inr report"
  shows "phase (state (run rt [JsonDone c fr fe, SaveDone c fe] h)) = Completed
       \<and> currentReport (state (run rt [JsonDone c fr fe, SaveDone c fe] h)) = Some report
       \<and> sourcesAnalyzed (state (run rt [JsonDone c fr fe, SaveDone c fe] h)) = length (sources report)"
  using c a r
  by (cases "has_query (invocations h ! c)") (simp_all add: run_def stage_of_def)

theorem completion_sets_sources_analyzed_witness:
  "0 < length (invocations (run sample_runtime (take 3 stale_trace) initial_hook))
   \<and> awaiting (invocations (run sample_runtime (take 3 stale_trace) initial_hook) ! 0)
       = AwaitJson topic_A_response
   \<and> read_response sample_runtime sample_fresh
        (questionText (invocations (run sample_runtime (take 3 stale_trace) initial_hook) ! 0))
        topic_A_response = Inr topic_A_report
   \<and> sourcesAnalyzed (state (run sample_runtime (take 3 stale_trace) initial_hook)) = 3
   \<and> sourcesAnalyzed (state (run sample_runtime
         [JsonDone 0 sample_fresh sample_fresh, SaveDone 0 sample_fresh]
         (run sample_runtime (take 3 stale_trace) initial_hook))) = 2"
proof -
  have r: "read_response sample_runtime sample_fresh
        (questionText (invocations (run sample_runtime (take 3 stale_trace) initial_hook) ! 0))
        topic_A_response = Inr topic_A_report"
    using stale_prefix read_topic_A by simp
  have n: "sourcesAnalyzed (state (run sample_runtime (take 3 stale_trace) initial_hook)) = 3"
    by code_simp
  have l: "length (sources topic_A_report) = 2"
    by (simp add: topic_A_report_def)
  from completion_sets_sources_analyzed
         [of 0 "run sample_runtime (take 3 stale_trace) initial_hook" topic_A_response
             sample_runtime sample_fresh topic_A_report sample_fresh]
       stale_prefix r n l
  show ?thesis by simp
qed

end
